theory Spec2Isabelle
  imports Main "HOL-Library.Char_ord" "HOL-Library.List_Lexorder"
begin

section \<open>Configuration constants of hub/main.py\<close>


definition MAX_SUBSCRIPTION_CONFIRM_FAILURES :: nat where
  "MAX_SUBSCRIPTION_CONFIRM_FAILURES = 4"

definition SUBSCRIPTION_RETRY_PERIOD :: int where
  "SUBSCRIPTION_RETRY_PERIOD = 30"





definition DEFAULT_LEASE_SECONDS :: int where
  "DEFAULT_LEASE_SECONDS = 5 * 24 * 60 * 60"


definition PUT_SPLITTING_ATTEMPTS :: nat where
  "PUT_SPLITTING_ATTEMPTS = 10"

definition MAX_FEED_ENTRY_RECORD_LOOKUPS :: nat where
  "MAX_FEED_ENTRY_RECORD_LOOKUPS = 500"

definition MAX_FEED_RECORD_SAVES :: nat where
  "MAX_FEED_RECORD_SAVES = 100"

definition MAX_NEW_FEED_ENTRY_RECORDS :: nat where
  "MAX_NEW_FEED_ENTRY_RECORDS = 200"

definition EVENT_QUEUE :: string where
  "EVENT_QUEUE = ''event-delivery''"

definition EVENT_RETRIES_QUEUE :: string where
  "EVENT_RETRIES_QUEUE = ''event-delivery-retries''"

definition FEED_QUEUE :: string where
  "FEED_QUEUE = ''feed-pulls''"


definition POLLING_QUEUE :: string where
  "POLLING_QUEUE = ''polling''"

definition SUBSCRIPTION_QUEUE :: string where
  "SUBSCRIPTION_QUEUE = ''subscriptions''"


section \<open>Helper functions\<close>

text \<open>
  \<^verbatim>\<open>hashlib.sha1(utf8encoded(value)).hexdigest()\<close> is a library function; every
  definition that hashes takes it as the parameter \<open>sha1_hash\<close>.
\<close>

definition get_hash_key_name :: "(string \<Rightarrow> string) \<Rightarrow> string \<Rightarrow> string" where
  "get_hash_key_name sha1_hash v = ''hash_'' @ sha1_hash v"

text \<open>Python truthiness of a text property that may be \<^verbatim>\<open>None\<close>.\<close>

definition truthy :: "string option \<Rightarrow> bool" where
  "truthy v = (case v of None \<Rightarrow> False | Some s \<Rightarrow> s \<noteq> [])"

section \<open>The task queue\<close>

datatype error = TaskQueueError | AssertionError | NotSavedError | UnboundLocalError

record task =
  queue_name :: string
  url :: string
  task_eta :: "int option"
  params :: "(string \<times> string) list"

definition RETRIES :: nat where
  "RETRIES = 3"

text \<open>
  Every enqueue helper of the source is the same loop:
  \<^verbatim>\<open>
  for i in xrange(RETRIES):
    try:
      taskqueue.Task(...).add(queue)
    except (taskqueue.Error, apiproxy_errors.Error):
      if i == (RETRIES - 1): raise
    else:
      return
  \<close>
  The environment decides which calls of \<^verbatim>\<open>add\<close> fail: here the first
  \<open>add_failures\<close> attempts do.
\<close>

fun add_attempts :: "nat \<Rightarrow> nat list \<Rightarrow> task \<Rightarrow> task list \<Rightarrow> error + task list" where
  "add_attempts add_failures [] t q = Inr q"
| "add_attempts add_failures (i # rest) t q =
     (if i < add_failures
      then (if i = RETRIES - 1 then Inl TaskQueueError
            else add_attempts add_failures rest t q)
      else Inr (q @ [t]))"

definition add_with_retries :: "nat \<Rightarrow> task \<Rightarrow> task list \<Rightarrow> error + task list" where
  "add_with_retries add_failures t q = add_attempts add_failures [0..<RETRIES] t q"

definition str_of_bool :: "bool \<Rightarrow> string" where
  "str_of_bool b = (if b then ''True'' else ''False'')"

section \<open>Subscription\<close>

datatype sub_state = STATE_NOT_VERIFIED | STATE_VERIFIED | STATE_TO_DELETE

definition state_name :: "sub_state \<Rightarrow> string" where
  "state_name s = (case s of STATE_NOT_VERIFIED \<Rightarrow> ''not_verified''
                   | STATE_VERIFIED \<Rightarrow> ''verified''
                   | STATE_TO_DELETE \<Rightarrow> ''to_delete'')"

text \<open>
  The properties of the model class, in the order of the source. \<open>created_time\<close> and
  \<open>eta\<close> are \<^verbatim>\<open>auto_now_add\<close> (set from the system clock when the instance is
  constructed); \<open>last_modified\<close> is \<^verbatim>\<open>auto_now\<close> (set from the system clock at
  every \<^verbatim>\<open>put()\<close>).
\<close>

record subscription =
  key_name :: string
  callback :: string
  callback_hash :: string
  topic :: string
  topic_hash :: string
  created_time :: int
  last_modified :: int
  lease_seconds :: int
  expiration_time :: int
  eta :: int
  confirm_failures :: nat
  verify_token :: "string option"
  secret :: "string option"
  hmac_algorithm :: "string option"
  subscription_state :: sub_state

type_synonym sub_store = "string \<rightharpoonup> subscription"

definition create_key_name :: "(string \<Rightarrow> string) \<Rightarrow> string \<Rightarrow> string \<Rightarrow> string" where
  "create_key_name sha1_hash cb tp = get_hash_key_name sha1_hash (cb @ [CHR 0x0A] @ tp)"

text \<open>\<^verbatim>\<open>sub.put()\<close>: the \<^verbatim>\<open>auto_now\<close> property takes the system clock.\<close>

definition sub_put :: "int \<Rightarrow> subscription \<Rightarrow> sub_store \<Rightarrow> sub_store" where
  "sub_put clock sub store =
     store(key_name sub \<mapsto> sub\<lparr>subscription.last_modified := clock\<rparr>)"

text \<open>
  \<^verbatim>\<open>Subscription.insert\<close>. The constructor's keyword \<^verbatim>\<open>hash_func\<close> names no
  property of the class and is dropped by \<^verbatim>\<open>db.Model\<close>, so \<open>hmac_algorithm\<close>
  stays \<^verbatim>\<open>None\<close>. Returns \<open>sub_is_new\<close> and the store.
\<close>

definition insert_sub ::
  "(string \<Rightarrow> string) \<Rightarrow> int \<Rightarrow> string \<Rightarrow> string \<Rightarrow> string option \<Rightarrow> string option
     \<Rightarrow> int \<Rightarrow> int \<Rightarrow> sub_store \<Rightarrow> bool \<times> sub_store" where
  "insert_sub sha1_hash clock cb tp vtoken scrt lease now_time store =
     (let kn = create_key_name sha1_hash cb tp;
          (sub_is_new, sub) =
            (case store kn of
               None \<Rightarrow>
                 (True,
                  \<lparr>key_name = kn, callback = cb, callback_hash = sha1_hash cb,
                   topic = tp, topic_hash = sha1_hash tp,
                   created_time = clock, last_modified = clock,
                   lease_seconds = lease, expiration_time = now_time,
                   eta = clock, confirm_failures = 0,
                   verify_token = vtoken, secret = scrt, hmac_algorithm = None,
                   subscription_state = STATE_NOT_VERIFIED\<rparr>)
             | Some found \<Rightarrow> (False, found));
          sub = sub\<lparr>subscription_state := STATE_VERIFIED\<rparr>;
          sub = sub\<lparr>expiration_time := now_time + lease\<rparr>;
          sub = sub\<lparr>confirm_failures := 0\<rparr>;
          sub = sub\<lparr>verify_token := vtoken\<rparr>;
          sub = sub\<lparr>secret := scrt\<rparr>
      in (sub_is_new, sub_put clock sub store))"



text \<open>\<^verbatim>\<open>Subscription.enqueue_task\<close>; \<^verbatim>\<open>secret or ''\<close> is the parameter's value.\<close>

definition enqueue_task ::
  "nat \<Rightarrow> subscription \<Rightarrow> string \<Rightarrow> string \<Rightarrow> bool \<Rightarrow> string option \<Rightarrow> task list
     \<Rightarrow> error + task list" where
  "enqueue_task add_failures self next_state vtoken auto_reconfirm scrt q =
     (let target_queue = (if auto_reconfirm then POLLING_QUEUE else SUBSCRIPTION_QUEUE)
      in add_with_retries add_failures
           \<lparr>queue_name = target_queue,
            url = ''/work/subscriptions'',
            task_eta = Some (subscription.eta self),
            params = [(''subscription_key_name'', key_name self),
                      (''next_state'', next_state),
                      (''verify_token'', vtoken),
                      (''secret'', (case scrt of Some s \<Rightarrow> s | None \<Rightarrow> [])),
                      (''auto_reconfirm'', str_of_bool auto_reconfirm)]\<rparr> q)"

text \<open>
  \<^verbatim>\<open>Subscription.confirm_failed\<close>. The result is the return value, the instance
  \<open>self\<close> as the call leaves it, the stored subscriptions and the queue. An exception out
  of the transaction rolls back the store and the (transactional) queue.
\<close>

definition confirm_failed ::
  "nat \<Rightarrow> int \<Rightarrow> subscription \<Rightarrow> string \<Rightarrow> string \<Rightarrow> bool \<Rightarrow> string option \<Rightarrow> nat \<Rightarrow> int
     \<Rightarrow> int \<Rightarrow> sub_store \<Rightarrow> task list
     \<Rightarrow> error + (bool \<times> subscription \<times> sub_store \<times> task list)" where
  "confirm_failed add_failures clock self next_state vtoken auto_reconfirm scrt
       max_failures retry_period now store q =
     (if confirm_failures self \<ge> max_failures
      then Inr (False, self, store, q)
      else
        (let retry_delay = retry_period * 2 ^ confirm_failures self;
             self = self\<lparr>subscription.eta := now + retry_delay\<rparr>;
             self = self\<lparr>confirm_failures := confirm_failures self + 1\<rparr>;
             store' = sub_put clock self store
         in case enqueue_task add_failures self next_state vtoken auto_reconfirm scrt q of
              Inl e \<Rightarrow> Inl e
            | Inr q' \<Rightarrow> Inr (True, self, store', q')))"

section \<open>Subscription confirmation\<close>





section \<open>FeedToFetch\<close>

record feed_to_fetch =
  ftf_key :: string
  topic :: string
  eta :: int
  fetching_failures :: nat
  totally_failed :: bool
  source_keys :: "string list"
  source_values :: "string list"
  work_index :: "int option"

type_synonym ftf_store = "string \<rightharpoonup> feed_to_fetch"



text \<open>\<^verbatim>\<open>FeedToFetch.done\<close>.\<close>

definition done_fetch :: "feed_to_fetch \<Rightarrow> ftf_store \<Rightarrow> bool \<times> ftf_store" where
  "done_fetch self store =
     (case store (ftf_key self) of
        Some other \<Rightarrow>
          if feed_to_fetch.eta other = feed_to_fetch.eta self
          then (True, store(ftf_key other := None))
          else (False, store)
      | None \<Rightarrow> (False, store))"

section \<open>EventToDeliver\<close>

datatype delivery_mode_t = NORMAL | RETRY

text \<open>
  \<open>failed_callbacks\<close> holds keys of Subscription entities, here their key names.
  \<open>ev_key\<close> is the entity's key: \<^verbatim>\<open>None\<close> until the first \<^verbatim>\<open>put\<close>, when the
  datastore allocates an id under the parent FeedRecord. \<open>payload\<close> is the blob of the
  source (a byte string).
\<close>

record event_to_deliver =
  ev_key :: "string option"
  ev_parent :: "string option"
  topic :: string
  topic_hash :: string
  last_callback :: string
  failed_callbacks :: "string list"
  delivery_mode :: delivery_mode_t
  retry_attempts :: nat
  last_modified :: int
  totally_failed :: bool
  content_type :: "string option"
  max_failures :: "nat option"
  payload :: string

type_synonym ev_store = "string \<rightharpoonup> event_to_deliver"





text \<open>
  \<^verbatim>\<open>EventToDeliver.enqueue\<close>. \<^verbatim>\<open>self.key()\<close> of an entity that was never put
  raises \<^verbatim>\<open>NotSavedError\<close>.
\<close>

definition enqueue ::
  "nat \<Rightarrow> bool \<Rightarrow> event_to_deliver \<Rightarrow> task list \<Rightarrow> error + task list" where
  "enqueue add_failures polling self q =
     (let target_queue = (if delivery_mode self = RETRY then EVENT_RETRIES_QUEUE
                          else if polling then POLLING_QUEUE
                          else EVENT_QUEUE)
      in case ev_key self of
           None \<Rightarrow> Inl NotSavedError
         | Some k \<Rightarrow>
             add_with_retries add_failures
               \<lparr>queue_name = target_queue, url = ''/work/push_events'',
                task_eta = Some (event_to_deliver.last_modified self),
                params = [(''event_key'', k)]\<rparr> q)"

text \<open>
  \<^verbatim>\<open>self.put()\<close> of an event: an entity without a key gets the id \<open>new_key\<close> that the
  datastore allocates.
\<close>

definition put_event :: "string \<Rightarrow> event_to_deliver \<Rightarrow> ev_store \<Rightarrow> event_to_deliver \<times> ev_store" where
  "put_event new_key self store =
     (let k = (case ev_key self of None \<Rightarrow> new_key | Some k \<Rightarrow> k);
          self = self\<lparr>ev_key := Some k\<rparr>
      in (self, store(k \<mapsto> self)))"



section \<open>Event delivery\<close>

text \<open>
  Python 2 has byte strings (\<^verbatim>\<open>str\<close>) and text (\<^verbatim>\<open>unicode\<close>); \<open>utf8\<close> is the
  codec's \<^verbatim>\<open>encode('utf-8')\<close>.
\<close>

datatype pystring = Str string | Unicode string

definition utf8encoded :: "(string \<Rightarrow> string) \<Rightarrow> pystring \<Rightarrow> string" where
  "utf8encoded utf8 d = (case d of Unicode u \<Rightarrow> utf8 u | Str b \<Rightarrow> b)"

text \<open>
  \<^verbatim>\<open>sha1_hmac\<close>; \<open>hmac_sha1_hexdigest key msg\<close> is the library's
  \<^verbatim>\<open>hmac.new(key, msg, hashlib.sha1).hexdigest()\<close>.
\<close>

definition sha1_hmac ::
  "(string \<Rightarrow> string) \<Rightarrow> (string \<Rightarrow> string \<Rightarrow> string) \<Rightarrow> pystring \<Rightarrow> pystring \<Rightarrow> string" where
  "sha1_hmac utf8 hmac_sha1_hexdigest scrt d =
     (let scrt = utf8encoded utf8 scrt;
          d = utf8encoded utf8 d
      in hmac_sha1_hexdigest scrt d)"

text \<open>
  \<^verbatim>\<open>sub.secret or sub.verify_token or ''\<close>: the text properties are
  \<^verbatim>\<open>unicode\<close> (or \<^verbatim>\<open>None\<close>), the literal is a \<^verbatim>\<open>str\<close>.
\<close>

definition secret_or_token :: "subscription \<Rightarrow> pystring" where
  "secret_or_token sub =
     (if truthy (secret sub) then Unicode (the (secret sub))
      else if truthy (verify_token sub) then Unicode (the (verify_token sub))
      else Str [])"

record post_request =
  post_url :: string
  post_headers :: "(string \<times> string) list"
  post_payload :: string

text \<open>
  The delivery loop of \<^verbatim>\<open>PushEventHandler.post\<close>: \<open>scores\<close> is the result of
  \<^verbatim>\<open>DELIVERY_SCORER.filter\<close> for the callbacks, pairs of \<open>allowed\<close> and a failure
  fraction (in percent here); each allowed subscriber gets one
  \<^verbatim>\<open>push_event\<close>.
\<close>

fun push_requests ::
  "(string \<Rightarrow> string) \<Rightarrow> (string \<Rightarrow> string \<Rightarrow> string) \<Rightarrow> event_to_deliver
     \<Rightarrow> (subscription \<times> (bool \<times> nat)) list \<Rightarrow> post_request list" where
  "push_requests utf8 hmac_sha1_hexdigest work [] = []"
| "push_requests utf8 hmac_sha1_hexdigest work ((sub, (allowed, percent)) # rest) =
     (let payload_utf8 = utf8encoded utf8 (Str (payload work))
      in if \<not> allowed then push_requests utf8 hmac_sha1_hexdigest work rest
         else
           \<lparr>post_url = callback sub,
            post_headers =
              [(''Content-Type'',
                (if truthy (event_to_deliver.content_type work)
                 then the (event_to_deliver.content_type work) else ''text/xml'')),
               (''X-Hub-Signature'',
                ''sha1='' @ sha1_hmac utf8 hmac_sha1_hexdigest
                              (secret_or_token sub) (Str payload_utf8))],
            post_payload = payload_utf8\<rparr>
           # push_requests utf8 hmac_sha1_hexdigest work rest)"

definition push_event_posts ::
  "(string \<Rightarrow> string) \<Rightarrow> (string \<Rightarrow> string \<Rightarrow> string) \<Rightarrow> (string list \<Rightarrow> (bool \<times> nat) list)
     \<Rightarrow> event_to_deliver \<Rightarrow> subscription list \<Rightarrow> post_request list" where
  "push_event_posts utf8 hmac_sha1_hexdigest scorer_filter work subscription_list =
     (let all_callbacks = subscription_list;
          scores = scorer_filter (map callback all_callbacks)
      in push_requests utf8 hmac_sha1_hexdigest work (zip all_callbacks scores))"

section \<open>KnownFeed and KnownFeedIdentity\<close>

record known_feed =
  kf_key_name :: string
  topic :: string
  feed_id :: "string option"
  update_time :: int

record known_feed_identity =
  kfi_key_name :: string
  feed_id :: string
  topics :: "string list"
  last_update :: "int option"

type_synonym kf_store = "string \<rightharpoonup> known_feed"

type_synonym kfi_store = "string \<rightharpoonup> known_feed_identity"

text \<open>
  \<^verbatim>\<open>KnownFeedIdentity.update\<close>. \<open>put_too_large\<close> says for which entities the
  \<^verbatim>\<open>put\<close> raises \<^verbatim>\<open>BadRequestError\<close> or \<^verbatim>\<open>RequestTooLargeError\<close>; the
  method then logs and returns \<^verbatim>\<open>None\<close>.
\<close>

definition update_identity ::
  "(string \<Rightarrow> string) \<Rightarrow> int \<Rightarrow> (known_feed_identity \<Rightarrow> bool) \<Rightarrow> string \<Rightarrow> string \<Rightarrow> kfi_store
     \<Rightarrow> known_feed_identity option \<times> kfi_store" where
  "update_identity sha1_hash clock put_too_large fid tp store =
     (let known_feed =
            (case store (get_hash_key_name sha1_hash fid) of
               None \<Rightarrow> \<lparr>kfi_key_name = get_hash_key_name sha1_hash fid,
                         feed_id = fid, topics = [], last_update = None\<rparr>
             | Some found \<Rightarrow> found);
          known_feed = (if tp \<notin> set (topics known_feed)
                        then known_feed\<lparr>topics := topics known_feed @ [tp]\<rparr>
                        else known_feed);
          known_feed = known_feed\<lparr>last_update := Some clock\<rparr>
      in if put_too_large known_feed then (None, store)
         else (Some known_feed, store(kfi_key_name known_feed \<mapsto> known_feed)))"

text \<open>\<^verbatim>\<open>KnownFeedIdentity.remove\<close>; \<^verbatim>\<open>list.remove\<close> drops the first occurrence.\<close>

definition remove_identity ::
  "(string \<Rightarrow> string) \<Rightarrow> int \<Rightarrow> string \<Rightarrow> string \<Rightarrow> kfi_store
     \<Rightarrow> known_feed_identity option \<times> kfi_store" where
  "remove_identity sha1_hash clock fid tp store =
     (case store (get_hash_key_name sha1_hash fid) of
        None \<Rightarrow> (None, store)
      | Some known_feed \<Rightarrow>
          if tp \<notin> set (topics known_feed) then (None, store)
          else
            (let known_feed = known_feed\<lparr>topics := remove1 tp (topics known_feed)\<rparr>
             in if topics known_feed = [] then
                  (None, store(kfi_key_name known_feed := None))
                else
                  (let known_feed = known_feed\<lparr>last_update := Some clock\<rparr>
                   in (Some known_feed, store(kfi_key_name known_feed \<mapsto> known_feed)))))"

text \<open>
  \<^verbatim>\<open>unicode.strip()\<close>; a character stands for a code point below 256, and these are
  the ones Python 2 takes for white space.
\<close>

definition isspace :: "char \<Rightarrow> bool" where
  "isspace c = (let n = (of_char c :: nat)
                in (9 \<le> n \<and> n \<le> 13) \<or> (28 \<le> n \<and> n \<le> 32) \<or> n = 133 \<or> n = 160)"

definition strip :: "string \<Rightarrow> string" where
  "strip s = rev (dropWhile isspace (rev (dropWhile isspace s)))"

text \<open>
  The first loop of \<^verbatim>\<open>derive_additional_topics\<close>, over the KnownFeed entities that
  \<^verbatim>\<open>KnownFeed.get\<close> returned; the state is \<open>topics\<close>, \<open>feed_ids\<close> and
  \<open>output_dict\<close>.
\<close>

fun derive_known ::
  "known_feed option list \<Rightarrow> string list \<times> string list \<times> (string \<rightharpoonup> string set)
     \<Rightarrow> string list \<times> string list \<times> (string \<rightharpoonup> string set)" where
  "derive_known [] st = st"
| "derive_known (None # rest) st = derive_known rest st"
| "derive_known (Some feed # rest) (tps, feed_ids, output_dict) =
     (let fix_feed_id = map_option strip (known_feed.feed_id feed)
      in if truthy fix_feed_id then
           derive_known rest
             (tps @ [known_feed.topic feed], feed_ids @ [the (known_feed.feed_id feed)],
              output_dict)
         else
           derive_known rest
             (tps, feed_ids,
              output_dict(known_feed.topic feed \<mapsto> {known_feed.topic feed})))"

text \<open>The second loop, over \<^verbatim>\<open>zip(topics, known_feed_ids)\<close>.\<close>

fun derive_identified ::
  "(string \<times> known_feed_identity option) list \<Rightarrow> (string \<rightharpoonup> string set)
     \<Rightarrow> (string \<rightharpoonup> string set)" where
  "derive_identified [] output_dict = output_dict"
| "derive_identified ((known_topic, None) # rest) output_dict =
     derive_identified rest output_dict"
| "derive_identified ((known_topic, Some identified) # rest) output_dict =
     (let topic_set = (case output_dict known_topic of
                         None \<Rightarrow> {known_topic} | Some ts \<Rightarrow> ts);
          output_dict = output_dict(known_topic \<mapsto> topic_set)
      in if length (topics identified) > 25 then derive_identified rest output_dict
         else derive_identified rest
                (output_dict(known_topic \<mapsto> topic_set \<union> set (topics identified))))"

text \<open>
  \<^verbatim>\<open>KnownFeedIdentity.derive_additional_topics\<close>; \<^verbatim>\<open>set(topics)\<close> is iterated in
  the order of \<open>remdups\<close>.
\<close>

definition derive_additional_topics ::
  "(string \<Rightarrow> string) \<Rightarrow> kf_store \<Rightarrow> kfi_store \<Rightarrow> string list \<Rightarrow> (string \<rightharpoonup> string set)" where
  "derive_additional_topics sha1_hash known store tps_in =
     (let tps = remdups tps_in;
          known_feeds = map (\<lambda>t. known (get_hash_key_name sha1_hash t)) tps;
          (tps, feed_ids, output_dict) = derive_known known_feeds ([], [], Map.empty);
          known_feed_ids = map (\<lambda>f. store (get_hash_key_name sha1_hash f)) feed_ids
      in derive_identified (zip tps known_feed_ids) output_dict)"

section \<open>FeedRecord, FeedEntryRecord and the event builder\<close>

definition ATOM :: string where
  "ATOM = ''atom''"

definition RSS :: string where
  "RSS = ''rss''"

definition ARBITRARY :: string where
  "ARBITRARY = ''arbitrary''"

text \<open>\<open>last_updated\<close> is \<^verbatim>\<open>auto_now\<close>.\<close>

record feed_record =
  fr_key_name :: string
  topic :: string
  header_footer :: "string option"
  last_updated :: int
  format :: "string option"
  content_type :: "string option"
  last_modified :: "string option"
  etag :: "string option"

text \<open>
  A FeedEntryRecord's key is its parent FeedRecord's key name and its own key name;
  \<open>update_time\<close> is \<^verbatim>\<open>auto_now\<close>.
\<close>

record feed_entry_record =
  fe_parent :: string
  fe_key_name :: string
  entry_content_hash :: string
  update_time :: int

text \<open>\<^verbatim>\<open>sub in s\<close> and \<^verbatim>\<open>s.rfind(sub)\<close> on strings.\<close>

fun contains :: "string \<Rightarrow> string \<Rightarrow> bool" where
  "contains sub [] = (sub = [])"
| "contains sub (c # cs) = (take (length sub) (c # cs) = sub \<or> contains sub cs)"

definition rfind :: "string \<Rightarrow> string \<Rightarrow> nat option" where
  "rfind s sub =
     (let found = filter (\<lambda>i. take (length sub) (drop i s) = sub) [0..<Suc (length s)]
      in if found = [] then None else Some (last found))"

text \<open>\<^verbatim>\<open>sep.join(xs)\<close>.\<close>

fun join :: "string \<Rightarrow> string list \<Rightarrow> string" where
  "join sep [] = []"
| "join sep [x] = x"
| "join sep (x # y # ys) = x @ sep @ join sep (y # ys)"

text \<open>\<^verbatim>\<open>str.lower()\<close> on the ASCII letters.\<close>

definition lower :: "string \<Rightarrow> string" where
  "lower s = map (\<lambda>c. if 65 \<le> (of_char c :: nat) \<and> (of_char c :: nat) \<le> 90
                      then char_of ((of_char c :: nat) + 32) else c) s"

text \<open>
  Assigning a byte string to a text property decodes it as ASCII; on a
  \<^verbatim>\<open>UnicodeDecodeError\<close> \<^verbatim>\<open>FeedRecord.update\<close> logs and keeps the old value.
\<close>

definition assign_text :: "string option \<Rightarrow> string option \<Rightarrow> string option" where
  "assign_text old v =
     (case v of None \<Rightarrow> None
      | Some s \<Rightarrow> if list_all (\<lambda>c. (of_char c :: nat) < 128) s then Some s else old)"

text \<open>\<^verbatim>\<open>FeedRecord.update\<close>; the response headers are a dictionary.\<close>

definition update_feed_record ::
  "feed_record \<Rightarrow> (string \<rightharpoonup> string) \<Rightarrow> string option \<Rightarrow> string option \<Rightarrow> feed_record" where
  "update_feed_record self headers hf fmt =
     (let self = self\<lparr>feed_record.content_type :=
                       assign_text (feed_record.content_type self)
                         (Some (lower (case headers ''Content-Type'' of
                                         None \<Rightarrow> [] | Some v \<Rightarrow> v)))\<rparr>;
          self = self\<lparr>feed_record.last_modified :=
                       assign_text (feed_record.last_modified self)
                         (headers ''Last-Modified'')\<rparr>;
          self = self\<lparr>etag := assign_text (etag self) (headers ''ETag'')\<rparr>;
          self = (if fmt \<noteq> None then self\<lparr>format := fmt\<rparr> else self)
      in if hf \<noteq> None \<and> format self \<noteq> Some ARBITRARY
         then self\<lparr>header_footer := hf\<rparr> else self)"

text \<open>The entities of one FeedRecord entity group and the datastore holding them.\<close>

datatype entity =
    FeedRecordEntity feed_record
  | EventEntity event_to_deliver
  | FeedEntryEntity feed_entry_record

record feed_db =
  db_feed_records :: "string \<rightharpoonup> feed_record"
  db_entries :: "(string \<times> string) \<rightharpoonup> feed_entry_record"
  db_events :: ev_store

text \<open>
  \<^verbatim>\<open>db.put\<close> of one entity: the \<^verbatim>\<open>auto_now\<close> properties take the system clock,
  an event without a key gets the id \<open>new_key\<close>.
\<close>

definition put_entity :: "int \<Rightarrow> string \<Rightarrow> feed_db \<Rightarrow> entity \<Rightarrow> feed_db" where
  "put_entity clock new_key db e =
     (case e of
        FeedRecordEntity fr \<Rightarrow>
          db\<lparr>db_feed_records := (db_feed_records db)(fr_key_name fr \<mapsto> fr\<lparr>last_updated := clock\<rparr>)\<rparr>
      | EventEntity ev \<Rightarrow>
          db\<lparr>db_events := snd (put_event new_key ev (db_events db))\<rparr>
      | FeedEntryEntity fe \<Rightarrow>
          db\<lparr>db_entries := (db_entries db)((fe_parent fe, fe_key_name fe) \<mapsto>
                                              fe\<lparr>feed_entry_record.update_time := clock\<rparr>)\<rparr>)"

text \<open>
  The slices \<^verbatim>\<open>xs[position:position+STEP]\<close> for
  \<^verbatim>\<open>position in xrange(0, len(xs), STEP)\<close>.
\<close>

function chunks :: "nat \<Rightarrow> 'a list \<Rightarrow> 'a list list" where
  "chunks n xs = (if n = 0 \<or> xs = [] then [] else take n xs # chunks n (drop n xs))"
  by pat_completeness auto
termination
  by (relation "measure (\<lambda>(n, xs). length xs)") auto

text \<open>\<^verbatim>\<open>FeedEntryRecord.create_key\<close>, \<^verbatim>\<open>get_entries_for_topic\<close>, \<^verbatim>\<open>id_hash\<close>,
  \<^verbatim>\<open>create_entry_for_topic\<close>.\<close>

definition create_key :: "(string \<Rightarrow> string) \<Rightarrow> string \<Rightarrow> string \<Rightarrow> string \<times> string" where
  "create_key sha1_hash tp entry_id =
     (get_hash_key_name sha1_hash tp, get_hash_key_name sha1_hash entry_id)"

definition get_entries_for_topic ::
  "(string \<Rightarrow> string) \<Rightarrow> feed_db \<Rightarrow> string \<Rightarrow> string list \<Rightarrow> feed_entry_record list" where
  "get_entries_for_topic sha1_hash db tp entry_id_list =
     concat (map (\<lambda>entry_id. case db_entries db (create_key sha1_hash tp entry_id) of
                                None \<Rightarrow> [] | Some r \<Rightarrow> [r]) entry_id_list)"

definition id_hash :: "feed_entry_record \<Rightarrow> string" where
  "id_hash e = drop (length ''hash_'') (fe_key_name e)"

definition create_entry_for_topic ::
  "(string \<Rightarrow> string) \<Rightarrow> int \<Rightarrow> string \<Rightarrow> string \<Rightarrow> string \<Rightarrow> feed_entry_record" where
  "create_entry_for_topic sha1_hash clock tp entry_id content_hash =
     \<lparr>fe_parent = fst (create_key sha1_hash tp entry_id),
      fe_key_name = snd (create_key sha1_hash tp entry_id),
      entry_content_hash = content_hash, update_time = clock\<rparr>"

text \<open>
  The diff engine \<^verbatim>\<open>feed_diff.filter\<close> is a collaborator: \<open>filter_feed content fmt\<close>
  raises a parse error (\<^verbatim>\<open>xml.sax.SAXException\<close>, \<^verbatim>\<open>feed_diff.Error\<close>), raises
  \<^verbatim>\<open>LookupError\<close> for an unknown character encoding, or returns the envelope and the
  dictionary of entries, given by its items in iteration order.
\<close>

datatype filter_result =
    ParseError
  | LookupError
  | Filtered string "(string \<times> string) list"

datatype find_result =
    FindParseError
  | FindLookupError
  | Updates string "feed_entry_record list" "string list"

text \<open>The loop of \<^verbatim>\<open>find_feed_updates\<close> over \<^verbatim>\<open>entries_map.iteritems()\<close>.\<close>

fun new_entries ::
  "(string \<Rightarrow> string) \<Rightarrow> int \<Rightarrow> string \<Rightarrow> (string \<rightharpoonup> string) \<Rightarrow> (string \<times> string) list
     \<Rightarrow> feed_entry_record list \<times> string list" where
  "new_entries sha1_hash clock tp existing_dict [] = ([], [])"
| "new_entries sha1_hash clock tp existing_dict ((entry_id, new_content) # rest) =
     (let new_content_hash = sha1_hash new_content;
          new_entry_id_hash = sha1_hash entry_id;
          (entities_to_save, entry_payloads) =
            new_entries sha1_hash clock tp existing_dict rest
      in if existing_dict new_entry_id_hash = Some new_content_hash
         then (entities_to_save, entry_payloads)
         else (create_entry_for_topic sha1_hash clock tp entry_id new_content_hash
                 # entities_to_save,
               new_content # entry_payloads))"

text \<open>\<^verbatim>\<open>find_feed_updates\<close>.\<close>

definition find_feed_updates ::
  "(string \<Rightarrow> string) \<Rightarrow> int \<Rightarrow> (string \<Rightarrow> string \<Rightarrow> filter_result) \<Rightarrow> feed_db
     \<Rightarrow> string \<Rightarrow> string \<Rightarrow> string \<Rightarrow> find_result" where
  "find_feed_updates sha1_hash clock filter_feed db tp fmt feed_content =
     (if fmt = ARBITRARY then Updates feed_content [] []
      else
        case filter_feed feed_content fmt of
          ParseError \<Rightarrow> FindParseError
        | LookupError \<Rightarrow> FindLookupError
        | Filtered hf entries_map \<Rightarrow>
            (let all_keys = map fst entries_map;
                 existing_entries =
                   concat (map (get_entries_for_topic sha1_hash db tp)
                             (chunks MAX_FEED_ENTRY_RECORD_LOOKUPS all_keys));
                 existing_dict =
                   map_of (rev (map (\<lambda>e. (id_hash e, entry_content_hash e))
                                  existing_entries));
                 (entities_to_save, entry_payloads) =
                   new_entries sha1_hash clock tp existing_dict entries_map
             in Updates hf entities_to_save entry_payloads))"

text \<open>The first line of a feed payload, \<^verbatim>\<open><?xml version="1.0" encoding="utf-8"?>\<close>.\<close>

definition xml_declaration :: string where
  "xml_declaration =
     ''<?xml version='' @ [CHR 0x22] @ ''1.0'' @ [CHR 0x22] @ '' encoding=''
       @ [CHR 0x22] @ ''utf-8'' @ [CHR 0x22] @ ''?>''"

text \<open>
  \<^verbatim>\<open>EventToDeliver.create_event_for_topic\<close> with \<^verbatim>\<open>set_parent=True\<close> and
  \<^verbatim>\<open>max_failures=None\<close>, as \<^verbatim>\<open>parse_feed\<close> calls it. Texts are byte strings here,
  so the final \<^verbatim>\<open>encode('utf-8')\<close> changes nothing.
\<close>

definition create_event_for_topic ::
  "(string \<Rightarrow> string) \<Rightarrow> int \<Rightarrow> string \<Rightarrow> string \<Rightarrow> string option \<Rightarrow> string \<Rightarrow> string list
     \<Rightarrow> error + event_to_deliver" where
  "create_event_for_topic sha1_hash now tp fmt ctype hf entry_payloads =
     (let built =
            (if fmt = ATOM \<or> fmt = RSS then
               (case rfind hf ''</'' of
                  None \<Rightarrow> Inl AssertionError
                | Some close_index \<Rightarrow>
                    (let end_tag = drop close_index hf;
                         found =
                           (if contains ''rss'' end_tag then
                              (case rfind (take close_index hf) ''</'' of
                                 None \<Rightarrow> Inl AssertionError
                               | Some close_index' \<Rightarrow>
                                   Inr (close_index', Some ''application/rss+xml''))
                            else if contains ''feed'' end_tag then
                              Inr (close_index, Some ''application/atom+xml'')
                            else if contains ''rdf'' end_tag then
                              Inr (close_index, Some ''application/rdf+xml'')
                            else Inr (close_index, ctype))
                     in case found of
                          Inl e \<Rightarrow> Inl e
                        | Inr (close_index, ctype) \<Rightarrow>
                            (let payload_list =
                                   [xml_declaration,
                                    take close_index hf]
                                   @ entry_payloads @ [drop close_index hf]
                             in Inr (join [CHR 0x0A] payload_list, ctype))))
             else if fmt = ARBITRARY then Inr (hf, ctype)
             else Inl UnboundLocalError)
      in case built of
           Inl e \<Rightarrow> Inl e
         | Inr (pl, ctype) \<Rightarrow>
             Inr \<lparr>ev_key = None,
                  ev_parent = Some (get_hash_key_name sha1_hash tp),
                  topic = tp, topic_hash = sha1_hash tp,
                  last_callback = [], failed_callbacks = [],
                  delivery_mode = NORMAL, retry_attempts = 0,
                  last_modified = now, totally_failed = False,
                  content_type = ctype, max_failures = None,
                  payload = pl\<rparr>)"

section \<open>parse\_feed\<close>

text \<open>
  The outcome of one \<^verbatim>\<open>db.put(group)\<close> inside the transaction is the environment's:
  it succeeds, raises \<^verbatim>\<open>BadRequestError\<close> or \<^verbatim>\<open>RequestTooLargeError\<close>, or raises
  \<^verbatim>\<open>TransactionFailedError\<close> or \<^verbatim>\<open>Timeout\<close>. The datastore decides from the
  entities the transaction has put so far and the group (\<open>grp\<close> below).
\<close>

datatype put_result = PutOk | PutTooLarge | PutTimeout

datatype txn_status = TxnDone | TxnTooLarge | TxnTimeout

text \<open>
  The \<^verbatim>\<open>while all_entities\<close> loop of \<^verbatim>\<open>txn\<close>: returns how it ended, the
  entities put so far in this run of the transaction, and the list \<open>all_entities\<close> as
  the run leaves it (the list lives outside the transaction and keeps its changes when
  the transaction is rolled back).
\<close>

fun txn_puts ::
  "(entity list \<Rightarrow> entity list \<Rightarrow> put_result) \<Rightarrow> entity list list \<Rightarrow> entity list
     \<Rightarrow> txn_status \<times> entity list \<times> entity list list" where
  "txn_puts db_put [] written = (TxnDone, written, [])"
| "txn_puts db_put (grp # rest) written =
     (case db_put written grp of
        PutOk \<Rightarrow> txn_puts db_put rest (written @ grp)
      | PutTooLarge \<Rightarrow>
          (TxnTooLarge, written,
           take (length grp div 2) grp # drop (length grp div 2) grp # rest)
      | PutTimeout \<Rightarrow> (TxnTimeout, written, rest))"

definition has_event :: "entity list \<Rightarrow> bool" where
  "has_event es = list_ex (\<lambda>e. case e of EventEntity ev \<Rightarrow> True | _ \<Rightarrow> False) es"

definition has_entry :: "entity list \<Rightarrow> bool" where
  "has_entry es = list_ex (\<lambda>e. case e of FeedEntryEntity fe \<Rightarrow> True | _ \<Rightarrow> False) es"

datatype commit_result =
    Committed "entity list" "task list"
  | Dropped
  | TimedOut
  | Raised error

text \<open>
  The \<^verbatim>\<open>for i in xrange(PUT_SPLITTING_ATTEMPTS)\<close> loop around
  \<^verbatim>\<open>db.run_in_transaction(txn)\<close>. \<open>saved\<close> records whether the event instance has
  been given its key by a \<^verbatim>\<open>put\<close>, in this or an earlier, rolled back run.
  \<open>Committed written q\<close> is the transaction that commits: the entities it writes and
  the queue with its transactional task.
\<close>

fun put_attempts ::
  "(entity list \<Rightarrow> entity list \<Rightarrow> put_result) \<Rightarrow> nat \<Rightarrow> bool \<Rightarrow> string \<Rightarrow> event_to_deliver option \<Rightarrow> task list
     \<Rightarrow> nat \<Rightarrow> entity list list \<Rightarrow> bool \<Rightarrow> commit_result" where
  "put_attempts db_put add_failures polling new_key event_to_deliver q 0 all_entities saved =
     Dropped"
| "put_attempts db_put add_failures polling new_key event_to_deliver q (Suc n) all_entities saved =
     (case txn_puts db_put all_entities [] of
        (status, written, all_entities') \<Rightarrow>
          (let saved = (saved \<or> has_event written)
           in case status of
                TxnTimeout \<Rightarrow> TimedOut
              | TxnTooLarge \<Rightarrow>
                  put_attempts db_put add_failures polling new_key event_to_deliver q n
                    all_entities' saved
              | TxnDone \<Rightarrow>
                  (case event_to_deliver of
                     None \<Rightarrow> Committed written q
                   | Some ev \<Rightarrow>
                       (case enqueue add_failures polling
                               (ev\<lparr>ev_key := (if saved then Some new_key else None)\<rparr>) q of
                          Inl e \<Rightarrow> Raised e
                        | Inr q' \<Rightarrow> Committed written q'))))"

text \<open>The \<^verbatim>\<open>for format in order\<close> loop with its \<^verbatim>\<open>parse_failures\<close> counter.\<close>

datatype format_result =
    BadEncoding
  | NoneParsed nat
  | Parsed string string "feed_entry_record list" "string list" nat

fun try_formats :: "(string \<Rightarrow> find_result) \<Rightarrow> string list \<Rightarrow> nat \<Rightarrow> format_result" where
  "try_formats find_updates [] parse_failures = NoneParsed parse_failures"
| "try_formats find_updates (fmt # rest) parse_failures =
     (case find_updates fmt of
        Updates hf entities_to_save entry_payloads \<Rightarrow>
          Parsed fmt hf entities_to_save entry_payloads parse_failures
      | FindParseError \<Rightarrow> try_formats find_updates rest (parse_failures + 1)
      | FindLookupError \<Rightarrow> BadEncoding)"

text \<open>
  The order in which \<^verbatim>\<open>parse_feed\<close> tries the formats:
  \<^verbatim>\<open>'rss' in (feed_record.format or feed_record.content_type or '')\<close>.
\<close>

definition format_order :: "feed_record \<Rightarrow> string list" where
  "format_order feed_rec =
     (let hint = (if truthy (format feed_rec) then the (format feed_rec)
                  else if truthy (feed_record.content_type feed_rec)
                  then the (feed_record.content_type feed_rec)
                  else [])
      in if contains ''rss'' hint then [RSS, ATOM, ARBITRARY]
         else [ATOM, RSS, ARBITRARY])"

text \<open>
  \<^verbatim>\<open>parse_feed\<close>: returns its result, the FeedRecord instance as the call leaves it,
  the datastore and the queue. \<open>now\<close> is \<^verbatim>\<open>utcnow()\<close> at the creation of the event,
  \<open>clock\<close> the system clock of the \<^verbatim>\<open>auto_now\<close> properties and \<open>new_key\<close> the key
  the datastore allocates for the event. The hook \<^verbatim>\<open>inform_event\<close> does nothing.
\<close>

definition parse_feed ::
  "(string \<Rightarrow> string) \<Rightarrow> int \<Rightarrow> (string \<Rightarrow> string \<Rightarrow> filter_result)
     \<Rightarrow> (entity list \<Rightarrow> entity list \<Rightarrow> put_result) \<Rightarrow> nat \<Rightarrow> bool \<Rightarrow> string \<Rightarrow> int
     \<Rightarrow> feed_record \<Rightarrow> (string \<rightharpoonup> string) \<Rightarrow> string \<Rightarrow> bool \<Rightarrow> feed_db \<Rightarrow> task list
     \<Rightarrow> error + (bool \<times> feed_record \<times> feed_db \<times> task list)" where
  "parse_feed sha1_hash clock filter_feed db_put add_failures polling new_key now
       feed_rec headers feed_content true_on_bad_feed db q =
     (let order = format_order feed_rec
      in case try_formats
                (\<lambda>fmt. find_feed_updates sha1_hash clock filter_feed db
                          (feed_record.topic feed_rec) fmt feed_content) order 0 of
           BadEncoding \<Rightarrow> Inr (true_on_bad_feed, feed_rec, db, q)
         | NoneParsed parse_failures \<Rightarrow>
             if parse_failures = length order
             then Inr (true_on_bad_feed, feed_rec, db, q)
             else Inl UnboundLocalError
         | Parsed fmt hf entities_to_save entry_payloads parse_failures \<Rightarrow>
             if parse_failures = length order
             then Inr (true_on_bad_feed, feed_rec, db, q)
             else
               (let (entities_to_save, entry_payloads, parse_successful, feed_rec) =
                      (if length entities_to_save > MAX_NEW_FEED_ENTRY_RECORDS
                       then (take MAX_NEW_FEED_ENTRY_RECORDS entities_to_save,
                             take MAX_NEW_FEED_ENTRY_RECORDS entry_payloads,
                             False, feed_rec)
                       else (entities_to_save, entry_payloads, True,
                             update_feed_record feed_rec headers (Some hf) (Some fmt)));
                    created =
                      (if fmt \<noteq> ARBITRARY \<and> entities_to_save = [] then Inr None
                       else
                         (case create_event_for_topic sha1_hash now
                                 (feed_record.topic feed_rec) fmt
                                 (feed_record.content_type feed_rec) hf entry_payloads of
                            Inl e \<Rightarrow> Inl e
                          | Inr ev \<Rightarrow> Inr (Some ev)))
                in case created of
                     Inl e \<Rightarrow> Inl e
                   | Inr event_to_deliver \<Rightarrow>
                       (let entities =
                              FeedRecordEntity feed_rec
                              # (case event_to_deliver of
                                   None \<Rightarrow> [] | Some ev \<Rightarrow> [EventEntity ev])
                              @ map FeedEntryEntity entities_to_save;
                            all_entities = chunks MAX_FEED_RECORD_SAVES entities
                        in case put_attempts db_put add_failures polling new_key
                                  event_to_deliver q PUT_SPLITTING_ATTEMPTS
                                  all_entities False of
                             Dropped \<Rightarrow> Inr (true_on_bad_feed, feed_rec, db, q)
                           | TimedOut \<Rightarrow> Inr (False, feed_rec, db, q)
                           | Raised e \<Rightarrow> Inl e
                           | Committed written q' \<Rightarrow>
                               Inr (parse_successful, feed_rec,
                                    fold (\<lambda>e d. put_entity clock new_key d e) written db,
                                    q'))))"

section \<open>Well-formed stores\<close>

text \<open>
  A datastore returns under a key the entity that has this key; a store given as a map
  is well formed when every entity sits under its own key.
\<close>

definition keyed_by :: "('e \<Rightarrow> 'k) \<Rightarrow> ('k \<rightharpoonup> 'e) \<Rightarrow> bool" where
  "keyed_by key_of store = (\<forall>k e. store k = Some e \<longrightarrow> key_of e = k)"

section \<open>The signing key as the specification words it\<close>

text \<open>
  The specification's reading of the HMAC key of a delivery: the subscription's secret
  if it is non-empty, otherwise its verify token if that is non-empty, otherwise the
  empty string; as bytes (UTF-8).
\<close>

definition signing_key_spec :: "(string \<Rightarrow> string) \<Rightarrow> subscription \<Rightarrow> string" where
  "signing_key_spec utf8 sub =
     (if secret sub \<noteq> None \<and> secret sub \<noteq> Some []
      then utf8 (the (secret sub))
      else if verify_token sub \<noteq> None \<and> verify_token sub \<noteq> Some []
      then utf8 (the (verify_token sub))
      else [])"

section \<open>Sample entities\<close>

text \<open>Concrete entities on which the theorems below are instantiated.\<close>

definition sample_sub :: subscription where
  "sample_sub =
     \<lparr>key_name = ''hash_cb'' @ [CHR 0x0A] @ ''tp'', callback = ''cb'', callback_hash = ''cb'',
      topic = ''tp'', topic_hash = ''tp'', created_time = 0, last_modified = 0,
      lease_seconds = 100, expiration_time = 100, eta = 0, confirm_failures = 4,
      verify_token = Some ''tok'', secret = None, hmac_algorithm = None,
      subscription_state = STATE_NOT_VERIFIED\<rparr>"

definition sample_fetch :: feed_to_fetch where
  "sample_fetch =
     \<lparr>ftf_key = ''hash_tp'', topic = ''tp'', eta = 0, fetching_failures = 4,
      totally_failed = False, source_keys = [], source_values = [], work_index = None\<rparr>"

definition sample_event :: event_to_deliver where
  "sample_event =
     \<lparr>ev_key = Some ''ev1'', ev_parent = Some ''hash_tp'', topic = ''tp'', topic_hash = ''tp'',
      last_callback = [], failed_callbacks = [], delivery_mode = NORMAL, retry_attempts = 4,
      last_modified = 0, totally_failed = False, content_type = None, max_failures = None,
      payload = ''<feed/>''\<rparr>"

text \<open>A verified subscriber of the topic \<open>tp\<close> whose callback hashes to \<open>h\<close>.\<close>

definition sub_hashed :: "string \<Rightarrow> subscription" where
  "sub_hashed h =
     \<lparr>key_name = ''k'' @ h, callback = ''cb'' @ h, callback_hash = h,
      topic = ''tp'', topic_hash = ''tp'', created_time = 0, last_modified = 0,
      lease_seconds = 100, expiration_time = 100, eta = 0, confirm_failures = 0,
      verify_token = None, secret = Some ''s3cret'', hmac_algorithm = None,
      subscription_state = STATE_VERIFIED\<rparr>"

definition sample_known_feed :: known_feed where
  "sample_known_feed =
     \<lparr>kf_key_name = ''hash_http://y.test/f'', topic = ''http://y.test/f'',
      feed_id = Some ''feed://y'', update_time = 0\<rparr>"

section \<open>Shared lemmas\<close>



lemma keyed_by_single: "key_of e = k \<Longrightarrow> keyed_by key_of [k \<mapsto> e]"
  by (simp add: keyed_by_def)

lemma keyed_by_empty: "keyed_by key_of Map.empty"
  by (simp add: keyed_by_def)

section \<open>FeedToFetch.done\<close>

text \<open>
  Claim C4. \<^verbatim>\<open>FeedToFetch.done()\<close> returns \<^verbatim>\<open>True\<close> exactly when an entity is
  stored under the key of the calling instance and its stored eta equals the eta of the
  calling instance; then that entity is deleted, and otherwise (eta differs, or no
  entity) the store is left as it was.
\<close>

theorem done_deletes_iff_eta_unchanged:
  "keyed_by ftf_key store \<Longrightarrow>
   (fst (done_fetch self store) \<longleftrightarrow>
      (\<exists>other. store (ftf_key self) = Some other
          \<and> feed_to_fetch.eta other = feed_to_fetch.eta self))
   \<and> (fst (done_fetch self store) \<longrightarrow>
        snd (done_fetch self store) = store(ftf_key self := None))
   \<and> (\<not> fst (done_fetch self store) \<longrightarrow> snd (done_fetch self store) = store)"
  by (auto simp: done_fetch_def keyed_by_def split: option.splits)

theorem done_deletes_iff_eta_unchanged_witness:
  "keyed_by ftf_key [''hash_tp'' \<mapsto> sample_fetch]
   \<and> fst (done_fetch sample_fetch [''hash_tp'' \<mapsto> sample_fetch])
   \<and> snd (done_fetch sample_fetch [''hash_tp'' \<mapsto> sample_fetch]) = Map.empty
   \<and> \<not> fst (done_fetch (sample_fetch\<lparr>feed_to_fetch.eta := 7\<rparr>)
                [''hash_tp'' \<mapsto> sample_fetch])
   \<and> snd (done_fetch (sample_fetch\<lparr>feed_to_fetch.eta := 7\<rparr>)
            [''hash_tp'' \<mapsto> sample_fetch]) = [''hash_tp'' \<mapsto> sample_fetch]"
proof -
  have k: "keyed_by ftf_key [''hash_tp'' \<mapsto> sample_fetch]"
    by (rule keyed_by_single) (simp add: sample_fetch_def)
  have same: "\<exists>other. [''hash_tp'' \<mapsto> sample_fetch] (ftf_key sample_fetch) = Some other
                \<and> feed_to_fetch.eta other = feed_to_fetch.eta sample_fetch"
    by (simp add: sample_fetch_def)
  have differ: "\<not> (\<exists>other. [''hash_tp'' \<mapsto> sample_fetch]
                        (ftf_key (sample_fetch\<lparr>feed_to_fetch.eta := 7\<rparr>)) = Some other
                \<and> feed_to_fetch.eta other
                     = feed_to_fetch.eta (sample_fetch\<lparr>feed_to_fetch.eta := 7\<rparr>))"
    by (simp add: sample_fetch_def)
  from done_deletes_iff_eta_unchanged [OF k, of sample_fetch] same
  have 1: "fst (done_fetch sample_fetch [''hash_tp'' \<mapsto> sample_fetch])"
    and 2: "snd (done_fetch sample_fetch [''hash_tp'' \<mapsto> sample_fetch])
              = [''hash_tp'' \<mapsto> sample_fetch](ftf_key sample_fetch := None)"
    by blast+
  from done_deletes_iff_eta_unchanged [OF k, of "sample_fetch\<lparr>feed_to_fetch.eta := 7\<rparr>"] differ
  have 3: "\<not> fst (done_fetch (sample_fetch\<lparr>feed_to_fetch.eta := 7\<rparr>)
                [''hash_tp'' \<mapsto> sample_fetch])"
    and 4: "snd (done_fetch (sample_fetch\<lparr>feed_to_fetch.eta := 7\<rparr>)
            [''hash_tp'' \<mapsto> sample_fetch]) = [''hash_tp'' \<mapsto> sample_fetch]"
    by blast+
  from 2 have "snd (done_fetch sample_fetch [''hash_tp'' \<mapsto> sample_fetch]) = Map.empty"
    by (simp add: sample_fetch_def)
  with k 1 3 4 show ?thesis by blast
qed

section \<open>Subscription.confirm\_failed gives up without effect\<close>

text \<open>
  Claim C10. When \<^verbatim>\<open>confirm_failed\<close> is called on a Subscription whose
  \<open>confirm_failures\<close> is at or above \<open>max_failures\<close>, it returns \<^verbatim>\<open>False\<close>; the
  instance, the stored subscriptions and the task queue are all as before: nothing is
  written or deleted and no task is enqueued.
\<close>

theorem confirm_failed_give_up_no_effect:
  "confirm_failures self \<ge> max_fail \<Longrightarrow>
   confirm_failed add_failures clock self next_state vtoken auto_reconfirm scrt
       max_fail retry_period now store q = Inr (False, self, store, q)"
  by (simp add: confirm_failed_def)

theorem confirm_failed_give_up_no_effect_witness:
  "confirm_failures sample_sub \<ge> MAX_SUBSCRIPTION_CONFIRM_FAILURES
   \<and> confirm_failed 0 50 sample_sub ''verified'' ''tok'' False None
        MAX_SUBSCRIPTION_CONFIRM_FAILURES SUBSCRIPTION_RETRY_PERIOD 1000
        [key_name sample_sub \<mapsto> sample_sub] []
      = Inr (False, sample_sub, [key_name sample_sub \<mapsto> sample_sub], [])"
proof -
  have h: "confirm_failures sample_sub \<ge> MAX_SUBSCRIPTION_CONFIRM_FAILURES"
    by (simp add: sample_sub_def MAX_SUBSCRIPTION_CONFIRM_FAILURES_def)
  from h confirm_failed_give_up_no_effect [OF h] show ?thesis by blast
qed

section \<open>Subscription.insert on an existing row\<close>

text \<open>
  Claim C9, as the code has it. When \<^verbatim>\<open>Subscription.insert\<close> finds a row under the
  key of the (callback, topic) pair, it returns \<^verbatim>\<open>False\<close> and stores that row with
  \<open>subscription_state\<close>, \<open>expiration_time\<close> (now plus the new lease),
  \<open>confirm_failures\<close>, \<open>verify_token\<close> and \<open>secret\<close> overwritten, and with the
  \<^verbatim>\<open>auto_now\<close> property \<open>last_modified\<close> set by \<^verbatim>\<open>put()\<close>; every other
  property keeps its value, so the stored \<open>lease_seconds\<close> is the previous one and the
  new lease never reaches it.
\<close>

theorem insert_existing_keeps_lease_seconds:
  "store (create_key_name sha1_hash cb tp) = Some row \<Longrightarrow>
   key_name row = create_key_name sha1_hash cb tp \<Longrightarrow>
   insert_sub sha1_hash clock cb tp vtoken scrt lease now_time store =
     (False,
      store(create_key_name sha1_hash cb tp \<mapsto>
        row\<lparr>subscription_state := STATE_VERIFIED,
            expiration_time := now_time + lease,
            confirm_failures := 0,
            verify_token := vtoken,
            secret := scrt,
            subscription.last_modified := clock\<rparr>))
   \<and> lease_seconds (the (snd (insert_sub sha1_hash clock cb tp vtoken scrt lease now_time store)
                            (create_key_name sha1_hash cb tp))) = lease_seconds row"
  by (simp add: insert_sub_def sub_put_def)

theorem insert_existing_keeps_lease_seconds_witness:
  "insert_sub (\<lambda>v. v) 50 ''cb'' ''tp'' (Some ''tok2'') (Some ''s'') 7 50
               [''hash_cb'' @ [CHR 0x0A] @ ''tp'' \<mapsto> sample_sub]
   = (False, [''hash_cb'' @ [CHR 0x0A] @ ''tp'' \<mapsto>
        sample_sub\<lparr>subscription_state := STATE_VERIFIED,
            expiration_time := 57,
            confirm_failures := 0,
            verify_token := Some ''tok2'',
            secret := Some ''s'',
            subscription.last_modified := 50\<rparr>])
    \<and> lease_seconds (the (snd (insert_sub (\<lambda>v. v) 50 ''cb'' ''tp'' (Some ''tok2'') (Some ''s'') 7 50
               [''hash_cb'' @ [CHR 0x0A] @ ''tp'' \<mapsto> sample_sub])
          (''hash_cb'' @ [CHR 0x0A] @ ''tp''))) = 100"
  using insert_existing_keeps_lease_seconds
          [of "[''hash_cb'' @ [CHR 0x0A] @ ''tp'' \<mapsto> sample_sub]" "\<lambda>v. v" "''cb''" "''tp''"
              sample_sub 50 "Some ''tok2''" "Some ''s''" 7 50]
  by (simp add: create_key_name_def get_hash_key_name_def sample_sub_def)

text \<open>
  The claim as stated says that only the five assigned properties are overwritten. On a
  row last modified at time 0, an insert at clock 50 stores a row that differs from the
  old row with only those five properties replaced: \<open>last_modified\<close> is 50.
\<close>

theorem insert_existing_only_five_fields_counterexample:
  "the (snd (insert_sub (\<lambda>v. v) 50 ''cb'' ''tp'' (Some ''tok2'') (Some ''s'') 7 50
               [''hash_cb'' @ [CHR 0x0A] @ ''tp'' \<mapsto> sample_sub])
          (''hash_cb'' @ [CHR 0x0A] @ ''tp''))
   \<noteq> sample_sub\<lparr>subscription_state := STATE_VERIFIED,
            expiration_time := 50 + 7,
            confirm_failures := 0,
            verify_token := Some ''tok2'',
            secret := Some ''s''\<rparr>"
  by (simp add: insert_sub_def sub_put_def sample_sub_def create_key_name_def
      get_hash_key_name_def Let_def)

section \<open>Retry schedules\<close>










section \<open>confirm\_subscription\<close>






section \<open>The failed callbacks of an event\<close>




section \<open>The signature of a delivery\<close>

lemma sha1_hmac_secret_or_token:
  "sha1_hmac utf8 hm (secret_or_token sub) (Str p) = hm (signing_key_spec utf8 sub) p"
  by (auto simp: sha1_hmac_def secret_or_token_def utf8encoded_def signing_key_spec_def
      truthy_def split: option.splits)

lemma push_requests_signed:
  "r \<in> set (push_requests utf8 hm work pairs) \<Longrightarrow>
   \<exists>sub \<in> fst ` set pairs.
      post_url r = callback sub
      \<and> map_of (post_headers r) ''X-Hub-Signature''
          = Some (''sha1='' @ hm (signing_key_spec utf8 sub) (payload work))
      \<and> post_payload r = payload work"
proof (induction pairs)
  case Nil
  then show ?case by simp
next
  case (Cons p pairs)
  obtain sub allowed percent where p: "p = (sub, (allowed, percent))"
    by (cases p) auto
  show ?case
  proof (cases "r \<in> set (push_requests utf8 hm work pairs)")
    case True
    with Cons.IH show ?thesis by auto
  next
    case False
    with Cons.prems p have "allowed"
      and r: "r = \<lparr>post_url = callback sub,
            post_headers =
              [(''Content-Type'',
                (if truthy (event_to_deliver.content_type work)
                 then the (event_to_deliver.content_type work) else ''text/xml'')),
               (''X-Hub-Signature'',
                ''sha1='' @ sha1_hmac utf8 hm (secret_or_token sub)
                              (Str (utf8encoded utf8 (Str (payload work)))))],
            post_payload = utf8encoded utf8 (Str (payload work))\<rparr>"
      by (auto simp: Let_def split: if_splits)
    then show ?thesis
      using p by (simp add: sha1_hmac_secret_or_token utf8encoded_def)
  qed
qed

text \<open>
  Claim C8. Every POST that the delivery loop of \<^verbatim>\<open>PushEventHandler.post\<close> issues goes
  to the callback of one of the subscribers of the chunk, has the event payload (a byte
  string, UTF-8 encoded when the event was built) as its body, and carries the header
  \<open>X-Hub-Signature\<close> with the value \<open>sha1=\<close> followed by the hex HMAC-SHA1 of that
  payload, keyed by the subscription's secret if non-empty, otherwise its verify token
  if non-empty, otherwise the empty string.
\<close>

theorem delivery_post_signature:
  "\<forall>r \<in> set (push_event_posts utf8 hmac_sha1_hexdigest scorer_filter work subscription_list).
     \<exists>sub \<in> set subscription_list.
        post_url r = callback sub
        \<and> map_of (post_headers r) ''X-Hub-Signature''
            = Some (''sha1='' @ hmac_sha1_hexdigest (signing_key_spec utf8 sub) (payload work))
        \<and> post_payload r = payload work"
proof
  fix r
  assume "r \<in> set (push_event_posts utf8 hmac_sha1_hexdigest scorer_filter work subscription_list)"
  then have "r \<in> set (push_requests utf8 hmac_sha1_hexdigest work
                 (zip subscription_list (scorer_filter (map callback subscription_list))))"
    by (simp add: push_event_posts_def Let_def)
  from push_requests_signed [OF this]
  obtain sub where s: "sub \<in> fst ` set (zip subscription_list
                          (scorer_filter (map callback subscription_list)))"
    and h: "post_url r = callback sub
        \<and> map_of (post_headers r) ''X-Hub-Signature''
            = Some (''sha1='' @ hmac_sha1_hexdigest (signing_key_spec utf8 sub) (payload work))
        \<and> post_payload r = payload work"
    by blast
  from s have "sub \<in> set subscription_list"
    by (auto dest: set_zip_leftD)
  with h show "\<exists>sub \<in> set subscription_list.
        post_url r = callback sub
        \<and> map_of (post_headers r) ''X-Hub-Signature''
            = Some (''sha1='' @ hmac_sha1_hexdigest (signing_key_spec utf8 sub) (payload work))
        \<and> post_payload r = payload work"
    by blast
qed

theorem delivery_post_signature_witness:
  "map (\<lambda>r. (post_url r, map_of (post_headers r) ''X-Hub-Signature''))
     (push_event_posts (\<lambda>v. v) (\<lambda>k m. k @ '':'' @ m) (map (\<lambda>c. (True, 0))) sample_event
        [sub_hashed ''a'', sample_sub, sample_sub\<lparr>verify_token := Some []\<rparr>])
   = [(''cba'', Some ''sha1=s3cret:<feed/>''),
      (''cb'', Some ''sha1=tok:<feed/>''),
      (''cb'', Some ''sha1=:<feed/>'')]"
  using delivery_post_signature
          [of "\<lambda>v. v" "\<lambda>k m. k @ '':'' @ m" "map (\<lambda>c. (True, 0))" sample_event
              "[sub_hashed ''a'', sample_sub, sample_sub\<lparr>verify_token := Some []\<rparr>]"]
  by (simp add: push_event_posts_def sha1_hmac_def secret_or_token_def utf8encoded_def
      truthy_def sub_hashed_def sample_sub_def sample_event_def Let_def)

section \<open>Feed identity alias expansion\<close>

lemma update_identity_stored:
  assumes "keyed_by kfi_key_name store"
  shows "\<exists>k. snd (update_identity sha1_hash clock (\<lambda>e. False) fid tp store)
               (get_hash_key_name sha1_hash fid) = Some k
           \<and> kfi_key_name k = get_hash_key_name sha1_hash fid
           \<and> topics k =
               (case store (get_hash_key_name sha1_hash fid) of
                  None \<Rightarrow> [tp]
                | Some old \<Rightarrow> if tp \<in> set (topics old) then topics old
                              else topics old @ [tp])"
  using assms
  by (auto simp: update_identity_def keyed_by_def Let_def split: option.splits)

lemma update_identity_keyed:
  assumes "keyed_by kfi_key_name store"
  shows "keyed_by kfi_key_name (snd (update_identity sha1_hash clock (\<lambda>e. False) fid tp store))"
  using assms
  by (auto simp: update_identity_def keyed_by_def Let_def split: option.splits)

lemma derive_single:
  assumes "known (get_hash_key_name sha1_hash t) = Some feed"
    and "known_feed.topic feed = t"
    and "known_feed.feed_id feed = Some fid"
    and "strip fid \<noteq> []"
    and "store (get_hash_key_name sha1_hash fid) = Some k"
  shows "derive_additional_topics sha1_hash known store [t] t
           = Some (if length (topics k) > 25 then {t} else {t} \<union> set (topics k))"
  using assms
  by (simp add: derive_additional_topics_def truthy_def Let_def)

lemma remove_identity_stored:
  assumes "keyed_by kfi_key_name store"
    and "store (get_hash_key_name sha1_hash fid) = Some k"
    and "tp \<in> set (topics k)"
  shows "snd (remove_identity sha1_hash clock fid tp store) (get_hash_key_name sha1_hash fid)
           = (if remove1 tp (topics k) = [] then None
              else Some (k\<lparr>topics := remove1 tp (topics k), last_update := Some clock\<rparr>))"
  using assms
  by (auto simp: remove_identity_def keyed_by_def Let_def)

text \<open>
  Claim C7, as the code has it. Let the KnownFeed of \<open>t1\<close> exist with the feed id
  \<open>fid\<close>, which is not blank, let the stored identities be well formed with distinct
  topics, let both updates be stored, and let the identity hold at most 25 topics after
  them. Then after \<^verbatim>\<open>update(fid, t1)\<close> and \<^verbatim>\<open>update(fid, t2)\<close> the expansion of
  \<open>t1\<close> maps \<open>t1\<close> to a set that includes \<open>t1\<close> and \<open>t2\<close>; after a following
  \<^verbatim>\<open>remove(fid, t2)\<close>, with \<open>t2\<close> another topic than \<open>t1\<close>, it maps \<open>t1\<close> to a
  set with \<open>t1\<close> and without \<open>t2\<close>. Removing the only topic of an identity deletes
  the identity.
\<close>

theorem alias_expansion_round_trip:
  assumes kf: "known (get_hash_key_name sha1_hash t1) = Some feed"
    and kt: "known_feed.topic feed = t1"
    and ki: "known_feed.feed_id feed = Some fid"
    and st: "strip fid \<noteq> []"
    and wf: "keyed_by kfi_key_name store"
    and ds: "\<forall>old. store (get_hash_key_name sha1_hash fid) = Some old \<longrightarrow> distinct (topics old)"
    and cap: "\<forall>k. snd (update_identity sha1_hash c2 (\<lambda>e. False) fid t2
                        (snd (update_identity sha1_hash c1 (\<lambda>e. False) fid t1 store)))
                    (get_hash_key_name sha1_hash fid) = Some k
                 \<longrightarrow> length (topics k) \<le> 25"
    and ne: "t1 \<noteq> t2"
  shows "(let s2 = snd (update_identity sha1_hash c2 (\<lambda>e. False) fid t2
                        (snd (update_identity sha1_hash c1 (\<lambda>e. False) fid t1 store)));
              s3 = snd (remove_identity sha1_hash c3 fid t2 s2)
          in (\<exists>S. derive_additional_topics sha1_hash known s2 [t1] t1 = Some S
                   \<and> {t1, t2} \<subseteq> S)
           \<and> (\<exists>S. derive_additional_topics sha1_hash known s3 [t1] t1 = Some S
                   \<and> t1 \<in> S \<and> t2 \<notin> S))
         \<and> (keyed_by kfi_key_name st0 \<and> st0 (get_hash_key_name sha1_hash fid0) = Some k0
              \<and> topics k0 = [t0]
             \<longrightarrow> snd (remove_identity sha1_hash c0 fid0 t0 st0)
                    (get_hash_key_name sha1_hash fid0) = None)"
proof -
  let ?key = "get_hash_key_name sha1_hash fid"
  let ?s1 = "snd (update_identity sha1_hash c1 (\<lambda>e. False) fid t1 store)"
  let ?s2 = "snd (update_identity sha1_hash c2 (\<lambda>e. False) fid t2 ?s1)"
  let ?s3 = "snd (remove_identity sha1_hash c3 fid t2 ?s2)"
  have wf1: "keyed_by kfi_key_name ?s1"
    by (rule update_identity_keyed [OF wf])
  have wf2: "keyed_by kfi_key_name ?s2"
    by (rule update_identity_keyed [OF wf1])
  from update_identity_stored [OF wf, of sha1_hash c1 fid t1]
  obtain k1 where k1: "?s1 ?key = Some k1"
    and t1: "topics k1 = (case store ?key of None \<Rightarrow> [t1]
                | Some old \<Rightarrow> if t1 \<in> set (topics old) then topics old
                              else topics old @ [t1])"
    by blast
  from t1 ds have in1: "t1 \<in> set (topics k1)" and d1: "distinct (topics k1)"
    by (auto split: option.splits)
  from update_identity_stored [OF wf1, of sha1_hash c2 fid t2] k1
  obtain k2 where k2: "?s2 ?key = Some k2"
    and t2: "topics k2 = (if t2 \<in> set (topics k1) then topics k1 else topics k1 @ [t2])"
    by auto
  from t2 in1 d1 have in2: "t1 \<in> set (topics k2)" "t2 \<in> set (topics k2)"
    and d2: "distinct (topics k2)"
    by (auto split: if_splits)
  from cap k2 have len: "length (topics k2) \<le> 25"
    by blast
  have A: "\<exists>S. derive_additional_topics sha1_hash known ?s2 [t1] t1 = Some S \<and> {t1, t2} \<subseteq> S"
    using derive_single [of known sha1_hash t1 feed fid ?s2 k2, OF kf kt ki st k2] len in2
    by auto
  from in2 ne have nonempty: "remove1 t2 (topics k2) \<noteq> []"
    by (metis empty_iff in_set_remove1 list.set(1))
  from remove_identity_stored [OF wf2 k2 in2(2), of c3] nonempty
  have k3: "?s3 ?key = Some (k2\<lparr>topics := remove1 t2 (topics k2), last_update := Some c3\<rparr>)"
    by simp
  have not3: "t2 \<notin> set (remove1 t2 (topics k2))"
    using d2 by simp
  have in3: "t1 \<in> set (remove1 t2 (topics k2))"
    using in2 ne by simp
  have B: "\<exists>S. derive_additional_topics sha1_hash known ?s3 [t1] t1 = Some S
                   \<and> t1 \<in> S \<and> t2 \<notin> S"
    using derive_single [of known sha1_hash t1 feed fid ?s3, OF kf kt ki st k3] not3 in3 ne
    by auto
  have C: "keyed_by kfi_key_name st0 \<and> st0 (get_hash_key_name sha1_hash fid0) = Some k0
              \<and> topics k0 = [t0]
             \<longrightarrow> snd (remove_identity sha1_hash c0 fid0 t0 st0)
                    (get_hash_key_name sha1_hash fid0) = None"
  proof
    assume h: "keyed_by kfi_key_name st0 \<and> st0 (get_hash_key_name sha1_hash fid0) = Some k0
              \<and> topics k0 = [t0]"
    then have "t0 \<in> set (topics k0)" by simp
    with h remove_identity_stored [of st0 sha1_hash fid0 k0 t0 c0]
    show "snd (remove_identity sha1_hash c0 fid0 t0 st0)
                    (get_hash_key_name sha1_hash fid0) = None"
      by simp
  qed
  from A B C show ?thesis
    by (simp add: Let_def)
qed

theorem alias_expansion_round_trip_witness:
  "derive_additional_topics (\<lambda>v. v) [''hash_http://y.test/f'' \<mapsto> sample_known_feed]
     (snd (update_identity (\<lambda>v. v) 2 (\<lambda>e. False) ''feed://y'' ''http://y.test/atom''
        (snd (update_identity (\<lambda>v. v) 1 (\<lambda>e. False) ''feed://y'' ''http://y.test/f''
                Map.empty))))
     [''http://y.test/f''] ''http://y.test/f''
     = Some {''http://y.test/f'', ''http://y.test/atom''}
   \<and> derive_additional_topics (\<lambda>v. v) [''hash_http://y.test/f'' \<mapsto> sample_known_feed]
       (snd (remove_identity (\<lambda>v. v) 3 ''feed://y'' ''http://y.test/atom''
         (snd (update_identity (\<lambda>v. v) 2 (\<lambda>e. False) ''feed://y'' ''http://y.test/atom''
           (snd (update_identity (\<lambda>v. v) 1 (\<lambda>e. False) ''feed://y'' ''http://y.test/f''
                Map.empty))))))
       [''http://y.test/f''] ''http://y.test/f''
     = Some {''http://y.test/f''}
   \<and> snd (remove_identity (\<lambda>v. v) 4 ''feed://y'' ''http://y.test/f''
         (snd (update_identity (\<lambda>v. v) 1 (\<lambda>e. False) ''feed://y'' ''http://y.test/f''
                Map.empty))) ''hash_feed://y'' = None"
  using alias_expansion_round_trip [of "[''hash_http://y.test/f'' \<mapsto> sample_known_feed]" "\<lambda>v. v"
      "''http://y.test/f''" sample_known_feed "''feed://y''" Map.empty 2
      "''http://y.test/atom''" 1 3
      "snd (update_identity (\<lambda>v. v) 1 (\<lambda>e. False) ''feed://y'' ''http://y.test/f'' Map.empty)"
      "''feed://y''"
      "\<lparr>kfi_key_name = ''hash_feed://y'', feed_id = ''feed://y'',
        topics = [''http://y.test/f''], last_update = Some 1\<rparr>" "''http://y.test/f''" 4]
  by (simp add: derive_additional_topics_def update_identity_def remove_identity_def
      get_hash_key_name_def sample_known_feed_def keyed_by_def strip_def isspace_def
      truthy_def Let_def insert_commute)

text \<open>
  The claim as stated has no condition on the KnownFeed of \<open>t1\<close>. Without one, the
  expansion leaves \<open>t1\<close> out altogether, whatever the identity holds.
\<close>

theorem alias_expansion_without_known_feed_counterexample:
  "derive_additional_topics (\<lambda>v. v) Map.empty
     (snd (update_identity (\<lambda>v. v) 2 (\<lambda>e. False) ''feed://y'' ''http://y.test/atom''
        (snd (update_identity (\<lambda>v. v) 1 (\<lambda>e. False) ''feed://y'' ''http://y.test/f''
                Map.empty))))
     [''http://y.test/f''] ''http://y.test/f'' = None"
  by (simp add: derive_additional_topics_def Let_def)


end
